theory Spec2Isabelle
  imports Main "HOL-Library.Sublist"
begin

section \<open>Data model\<close>

text \<open>A JavaScript \<^verbatim>\<open>Error\<close> is its message.\<close>

datatype error = Error string

text \<open>
  A promise either resolves, rejects, or never settles (no callback that could settle it
  was ever installed).
\<close>

datatype 'a outcome = Resolved 'a | Rejected error | NeverSettles

text \<open>
  A \<^verbatim>\<open>RegExp\<close> object. \<open>ref\<close> is its identity: a macro, the profile that holds
  it and \<^verbatim>\<open>readMatch\<close> refer to one and the same object. \<open>matchFrom s i\<close> is what
  the pattern finds in \<open>s\<close> when the matching starts at index \<open>i\<close>: the index at
  which the match ends, or nothing. \<open>usesLastIndex\<close> holds of a pattern with the flag
  \<^verbatim>\<open>g\<close> or \<^verbatim>\<open>y\<close>, whose \<^verbatim>\<open>test\<close> starts at the object's \<^verbatim>\<open>lastIndex\<close>
  and moves it. The \<^verbatim>\<open>lastIndex\<close> of the objects is mutable and kept in a store.
\<close>

record RegExp =
  ref :: nat
  matchFrom :: "string \<Rightarrow> nat \<Rightarrow> nat option"
  usesLastIndex :: bool

text \<open>\<^verbatim>\<open>ComMacro\<close>: a command template and the response pattern.\<close>

record ComMacro =
  command :: string
  response :: RegExp

text \<open>
  \<^verbatim>\<open>ComType\<close>: \<^verbatim>\<open>macros\<close> is the object from operation name to macro list;
  its entry \<^verbatim>\<open>init\<close> is what \<^verbatim>\<open>setType\<close> sends.
\<close>

record ComType =
  name :: string
  baud :: int
  macros :: "string \<rightharpoonup> ComMacro list"
  startupDelay :: nat

text \<open>
  The transport handle, as \<^verbatim>\<open>__mocks__/serialport.ts\<close> has it: \<^verbatim>\<open>open\<close> sets
  \<^verbatim>\<open>isOpen\<close> unless it reports an error, \<^verbatim>\<open>close\<close> clears it and then reports.
\<close>

record SerialPort =
  sp_path :: string
  baudRate :: int
  isOpen :: bool

datatype port_state = Busy | Closed | Background | Connecting

text \<open>
  \<^verbatim>\<open>ComPort\<close>. The field \<^verbatim>\<open>name\<close> is \<open>port_name\<close> here (\<open>name\<close> is the
  profile's); the informational device metadata is left out. \<open>lastIndexOf\<close> is the
  store of the \<^verbatim>\<open>lastIndex\<close> of the \<^verbatim>\<open>RegExp\<close> objects the connection works
  with, by their \<open>ref\<close>; it is 0 for a new object.
\<close>

record ComPort =
  path :: string
  port :: "SerialPort option"
  readMatch :: "RegExp option"
  readComplete :: bool
  buffer :: string
  backgroundBuffer :: "string list"
  port_name :: "string option"
  state :: port_state
  type :: "ComType option"
  lastError :: "string option"
  timeout :: int
  lineEnding :: string
  lastIndexOf :: "nat \<Rightarrow> nat"

text \<open>\<^verbatim>\<open>new ComPort(path)\<close>: the field initialisers of the class.\<close>

definition new_ComPort :: "string \<Rightarrow> ComPort" where
  "new_ComPort p =
     \<lparr>path = p, port = None, readMatch = None, readComplete = False, buffer = [],
      backgroundBuffer = [], port_name = None, state = Closed, type = None,
      lastError = None, timeout = 5000, lineEnding = [CHR 0x0A],
      lastIndexOf = (\<lambda>r. 0)\<rparr>"

record ComManager =
  ports :: "ComPort list"
  types :: "ComType list"

section \<open>Numbers in template literals\<close>

text \<open>An integer inside a template literal is its decimal numeral.\<close>

fun digits :: "nat \<Rightarrow> string" where
  "digits n = (if n < 10 then [''0123456789'' ! n]
               else digits (n div 10) @ [''0123456789'' ! (n mod 10)])"

declare digits.simps [simp del]

definition num_str :: "int \<Rightarrow> string" where
  "num_str i = (if i < 0 then CHR ''-'' # digits (nat (- i)) else digits (nat i))"

section \<open>ComManager.getComPort\<close>

datatype selector = Index int | Name string

text \<open>\<^verbatim>\<open>this.ports.filter(p => p.type?.name === typeName)\<close>\<close>

definition typePorts :: "ComManager \<Rightarrow> string \<Rightarrow> ComPort list" where
  "typePorts m typeName =
     filter (\<lambda>p. case type p of None \<Rightarrow> False | Some t \<Rightarrow> name t = typeName) (ports m)"

text \<open>
  The result is \<open>Inl\<close> of the thrown error, or \<open>Inr\<close> of what is returned: \<open>Some\<close>
  port, or \<open>None\<close> for JavaScript's \<^verbatim>\<open>undefined\<close>, which reading an array outside
  its bounds gives.
\<close>

definition getComPort :: "ComManager \<Rightarrow> string \<Rightarrow> selector \<Rightarrow> error + ComPort option" where
  "getComPort m typeName index_name =
     (let tps = typePorts m typeName in
      case index_name of
        Name n \<Rightarrow>
          (case find (\<lambda>p. port_name p = Some n) tps of
             None \<Rightarrow> Inl (Error (''Port with name '' @ n @ '' not found for type '' @ typeName @ ''.''))
           | Some p \<Rightarrow> Inr (Some p))
      | Index index \<Rightarrow>
          if index \<ge> int (length tps)
          then Inl (Error (''Port with index '' @ num_str index @ '' not found. ''
                           @ num_str (int (length tps)) @ '' ports found of type ''
                           @ typeName @ ''.''))
          else if 0 \<le> index then Inr (Some (tps ! nat index))
          else Inr None)"

text \<open>
  A profile with the name of the one in \<^verbatim>\<open>test/ComManager.test.ts\<close> (the macros
  play no part in \<^verbatim>\<open>getComPort\<close> and are left empty) and a manager with three
  discovered ports, the first and the last of that profile.
\<close>

definition mockName :: ComType where
  "mockName = \<lparr>name = ''mock'', baud = 9600, macros = Map.empty, startupDelay = 0\<rparr>"

definition fleet :: ComManager where
  "fleet = \<lparr>ports = [(new_ComPort ''/dev/mock1'')\<lparr>type := Some mockName\<rparr>,
                      new_ComPort ''/dev/tty.Bluetooth-Incoming-Port'',
                      (new_ComPort ''/dev/mock2'')\<lparr>type := Some mockName\<rparr>],
            types = [mockName]\<rparr>"

section \<open>Strings\<close>

text \<open>
  Strings are lists of code units below 256. \<^verbatim>\<open>String.prototype.trim\<close> removes
  white space and line terminators at both ends: in this range TAB, LF, VT, FF, CR, SP and
  NBSP.
\<close>

definition isWhiteSpace :: "char \<Rightarrow> bool" where
  "isWhiteSpace c =
     (c = CHR 0x09 \<or> c = CHR 0x0A \<or> c = CHR 0x0B \<or> c = CHR 0x0C \<or> c = CHR 0x0D
      \<or> c = CHR 0x20 \<or> c = CHR 0xA0)"

definition trim :: "string \<Rightarrow> string" where
  "trim s = rev (dropWhile isWhiteSpace (rev (dropWhile isWhiteSpace s)))"

definition endsWith :: "string \<Rightarrow> string \<Rightarrow> bool" where
  "endsWith s searchString =
     (length searchString \<le> length s \<and> drop (length s - length searchString) s = searchString)"

text \<open>
  \<^verbatim>\<open>dataStr.split(/\r?\n/)\<close>: a line ends at LF, or at CR directly followed by LF;
  a CR alone stays in its line. The result is never empty.
\<close>

fun split_lines :: "string \<Rightarrow> string list" where
  "split_lines [] = [[]]"
| "split_lines (c # cs) =
     (if c = CHR 0x0A then [] # split_lines cs
      else if c = CHR 0x0D \<and> take 1 cs = [CHR 0x0A] then [] # split_lines (drop 1 cs)
      else (case split_lines cs of [] \<Rightarrow> [[c]] | l # ls \<Rightarrow> (c # l) # ls))"

text \<open>\<^verbatim>\<open>Array.prototype.splice(start, deleteCount)\<close> for a start within the array.\<close>

definition splice :: "nat \<Rightarrow> nat \<Rightarrow> 'a list \<Rightarrow> 'a list" where
  "splice start deleteCount xs = take start xs @ drop (start + deleteCount) xs"

text \<open>
  \<^verbatim>\<open>RegExp.prototype.test\<close> on the store of \<^verbatim>\<open>lastIndex\<close>. Without the flags
  the matching starts at 0 and the store is left alone. With them it starts at the
  object's \<^verbatim>\<open>lastIndex\<close>: a match moves \<^verbatim>\<open>lastIndex\<close> to its end, no match (or
  a \<^verbatim>\<open>lastIndex\<close> beyond the string) sets it to 0.
\<close>

definition test :: "RegExp \<Rightarrow> string \<Rightarrow> (nat \<Rightarrow> nat) \<Rightarrow> bool \<times> (nat \<Rightarrow> nat)" where
  "test re s li =
     (if usesLastIndex re then
        (if li (ref re) > length s then (False, li(ref re := 0))
         else (case matchFrom re s (li (ref re)) of
                 None \<Rightarrow> (False, li(ref re := 0))
               | Some e \<Rightarrow> (True, li(ref re := e))))
      else (matchFrom re s 0 \<noteq> None, li))"

section \<open>ComPort: events of the transport\<close>

text \<open>
  The background branch of \<^verbatim>\<open>receiveData\<close>, on the log alone. First the lines of
  the chunk are added: the first line is joined to the last entry, the later lines that
  are not blank are pushed, and an empty entry is pushed after a final line ending.
\<close>

definition appendLines :: "string \<Rightarrow> string list \<Rightarrow> string list" where
  "appendLines dataStr bb =
     (let lines = split_lines dataStr
      in if length lines > 0 then
           (let b0 = (if length bb > 0 then bb[length bb - 1 := bb ! (length bb - 1) @ lines ! 0]
                      else bb @ [lines ! 0]);
                b1 = b0 @ filter (\<lambda>l. length (trim l) > 0) (drop 1 lines)
            in if endsWith dataStr [CHR 0x0A] \<or> endsWith dataStr [CHR 0x0D]
               then b1 @ [[]] else b1)
         else bb)"

text \<open>Then the size limit: \<^verbatim>\<open>splice(length - 10, 10)\<close> once the length is above 1000.\<close>

definition backgroundLog :: "string \<Rightarrow> string list \<Rightarrow> string list" where
  "backgroundLog dataStr bb =
     (let b = appendLines dataStr bb
      in if length b > 1000 then splice (length b - 10) 10 b else b)"

definition receiveData :: "string \<Rightarrow> ComPort \<Rightarrow> ComPort" where
  "receiveData data c =
     (if state c = Background then c\<lparr>backgroundBuffer := backgroundLog data (backgroundBuffer c)\<rparr>
      else if state c = Busy then
        (case readMatch c of
           None \<Rightarrow> c\<lparr>lastError :=
                       Some ''State was busy reading data but no read RegExp was found to check for completion.'',
                     state := Background\<rparr>
         | Some m \<Rightarrow>
             (let c1 = c\<lparr>buffer := buffer c @ data\<rparr>;
                  tested = test m (trim (buffer c1)) (lastIndexOf c1);
                  c2 = c1\<lparr>lastIndexOf := snd tested\<rparr>
              in if fst tested then c2\<lparr>state := Background, readComplete := True\<rparr>
                 else c2))
      else c)"

text \<open>
  \<^verbatim>\<open>close\<close>. With no handle the optional call does nothing and no callback is
  installed. With a handle the transport closes (\<^verbatim>\<open>_isOpen = false\<close>) and calls back
  with its response, an error message or nothing.
\<close>

definition close :: "string option \<Rightarrow> ComPort \<Rightarrow> unit outcome \<times> ComPort" where
  "close closeResponse c =
     (case port c of
        None \<Rightarrow> (NeverSettles, c)
      | Some p \<Rightarrow>
          (let p' = p\<lparr>isOpen := False\<rparr>;
               c1 = (if \<not> isOpen p' then c\<lparr>port := None, state := Closed\<rparr>
                     else c\<lparr>port := Some p'\<rparr>)
           in case closeResponse of
                Some err \<Rightarrow> (Rejected (Error err), c1)
              | None \<Rightarrow> (Resolved (), c1)))"

text \<open>
  \<^verbatim>\<open>receiveError\<close>. Its \<^verbatim>\<open>this.close()\<close> is not awaited; the close callback runs
  on the next turn of the event loop, before any timer of a waiting caller, and is applied
  here at once.
\<close>

definition receiveError :: "string \<Rightarrow> ComPort \<Rightarrow> ComPort" where
  "receiveError message c =
     (let c1 = c\<lparr>lastError := Some message\<rparr>
      in if (case port c1 of None \<Rightarrow> False | Some p \<Rightarrow> isOpen p)
         then c1\<lparr>state := Background\<rparr>
         else (let c2 = c1\<lparr>state := Closed\<rparr>
               in if port c2 \<noteq> None then snd (close None c2) else c2))"

text \<open>
  What the event loop can deliver to a connection while a caller waits on a timer: a
  chunk of data, an error of the transport (with whether the transport is still open when
  it is emitted), or the callback of an \<^verbatim>\<open>open\<close> that another \<^verbatim>\<open>connect\<close> started.
\<close>

datatype event = Data string | PortError string bool | OpenCallback "string option"

definition openCallback :: "string option \<Rightarrow> ComPort \<Rightarrow> ComPort" where
  "openCallback err c =
     (case err of
        Some message \<Rightarrow> c\<lparr>state := Closed, lastError := Some message\<rparr>
      | None \<Rightarrow> c\<lparr>port := map_option (\<lambda>p. p\<lparr>isOpen := True\<rparr>) (port c), state := Background\<rparr>)"

fun deliver :: "event \<Rightarrow> ComPort \<Rightarrow> ComPort" where
  "deliver (Data chunk) c = receiveData chunk c"
| "deliver (PortError message stillOpen) c =
     receiveError message
       (c\<lparr>port := map_option (\<lambda>p. p\<lparr>isOpen := isOpen p \<and> stillOpen\<rparr>) (port c)\<rparr>)"
| "deliver (OpenCallback err) c = openCallback err c"

definition deliverAll :: "event list \<Rightarrow> ComPort \<Rightarrow> ComPort" where
  "deliverAll evs c = fold deliver evs c"

section \<open>ComPort: connect, write, read\<close>

text \<open>
  \<^verbatim>\<open>connect(baud?)\<close>; \<open>openResponse\<close> is what the transport's \<^verbatim>\<open>open\<close> calls
  back with. \<^verbatim>\<open>!baud\<close> holds for a missing baud and for 0.
\<close>

definition connect :: "int option \<Rightarrow> string option \<Rightarrow> ComPort \<Rightarrow> unit outcome \<times> ComPort" where
  "connect baudArg openResponse c =
     (let given = (case baudArg of None \<Rightarrow> None | Some b \<Rightarrow> if b = 0 then None else Some b);
          resolved = (case given of Some b \<Rightarrow> Some b | None \<Rightarrow> map_option ComType.baud (type c))
      in case resolved of
           None \<Rightarrow>
             (Rejected (Error ''No baud rate set while trying to connect. Either pass the baud rate to the connect function or set a ComType first.''), c)
         | Some b \<Rightarrow>
             (let c1 = c\<lparr>state := Connecting,
                         port := Some \<lparr>sp_path = path c, baudRate = b, isOpen = False\<rparr>\<rparr>
              in case openResponse of
                   Some message \<Rightarrow> (Rejected (Error message), openCallback (Some message) c1)
                 | None \<Rightarrow> (Resolved (), openCallback None c1)))"

text \<open>
  \<^verbatim>\<open>write(command)\<close>, here \<open>write_command\<close>; \<open>writeResponse\<close> is what the
  transport's \<^verbatim>\<open>write\<close> calls back with.
\<close>

definition write_command :: "string \<Rightarrow> string option \<Rightarrow> ComPort \<Rightarrow> unit outcome \<times> ComPort" where
  "write_command cmd writeResponse c =
     (if (case port c of None \<Rightarrow> True | Some p \<Rightarrow> \<not> isOpen p)
      then (Rejected (Error ''Port not open. Please open the port via the connect function before attempting to write.''), c)
      else (case writeResponse of
              Some message \<Rightarrow> (Rejected (Error message), c\<lparr>lastError := Some message\<rparr>)
            | None \<Rightarrow> (Resolved (), c)))"

text \<open>
  \<^verbatim>\<open>read(match)\<close>. \<^verbatim>\<open>checkCompletion\<close> runs at once and then after every timer of
  100 ms. Before its run number \<open>k + 1\<close> the event loop delivers the events \<open>evs k\<close>,
  and the timer is \<open>lag k\<close> ms late; \<open>elapsed\<close> is \<^verbatim>\<open>Date.now() - time\<close>.
  \<^verbatim>\<open>this.lastError\<close> is tested for truthiness: null and the empty string are falsy.
\<close>

definition timeoutError :: "ComPort \<Rightarrow> error" where
  "timeoutError c =
     Error (''Timeout after '' @ num_str (timeout c) @ ''ms while reading from port '' @ path c @ ''.'')"

lemma timeout_receiveData [simp]: "timeout (receiveData d c) = timeout c"
  by (simp add: receiveData_def Let_def split: option.splits)

lemma timeout_close [simp]: "timeout (snd (close r c)) = timeout c"
  by (simp add: close_def Let_def split: option.splits)

lemma timeout_receiveError [simp]: "timeout (receiveError e c) = timeout c"
  by (simp add: receiveError_def Let_def)

lemma timeout_deliver [simp]: "timeout (deliver e c) = timeout c"
  by (cases e) (simp_all add: openCallback_def split: option.splits)

lemma timeout_deliverAll [simp]: "timeout (deliverAll evs c) = timeout c"
  unfolding deliverAll_def by (induction evs arbitrary: c) simp_all

function checkCompletion ::
  "(nat \<Rightarrow> event list) \<Rightarrow> (nat \<Rightarrow> nat) \<Rightarrow> nat \<Rightarrow> int \<Rightarrow> ComPort \<Rightarrow> string outcome \<times> ComPort" where
  "checkCompletion evs lag k elapsed c =
     (if readComplete c then (Resolved (trim (buffer c)), c)
      else if elapsed > timeout c then (Rejected (timeoutError c), c)
      else (case lastError c of
              Some (x # xs) \<Rightarrow> (Rejected (Error (x # xs)), c)
            | _ \<Rightarrow> checkCompletion evs lag (Suc k) (elapsed + 100 + int (lag k))
                     (deliverAll (evs k) c)))"
  by pat_completeness auto
termination
  by (relation "measure (\<lambda>(evs, lag, k, elapsed, c). nat (timeout c + 1 - elapsed))") auto

declare checkCompletion.simps [simp del]

definition read ::
  "RegExp \<Rightarrow> (nat \<Rightarrow> event list) \<Rightarrow> (nat \<Rightarrow> nat) \<Rightarrow> ComPort \<Rightarrow> string outcome \<times> ComPort" where
  "read match evs lag c =
     checkCompletion evs lag 0 0
       (c\<lparr>readMatch := Some match, buffer := [], lastError := None, readComplete := False\<rparr>)"

section \<open>ComPort.send: parameters in macro commands\<close>

text \<open>
  The values a \<^verbatim>\<open>params\<close> object holds: \<^verbatim>\<open>undefined\<close>, \<^verbatim>\<open>null\<close>, booleans,
  integers, strings, arrays, and plain objects (key and value pairs, each key once; the
  members inherited from \<^verbatim>\<open>Object.prototype\<close> are not part of the pairs).
\<close>

datatype jsval =
  JUndefined | JNull | JBool bool | JNum int | JStr string
  | JArr "jsval list" | JObj "(string \<times> jsval) list"

fun join :: "string list \<Rightarrow> string" where
  "join [] = []"
| "join [x] = x"
| "join (x # y # ys) = x @ '','' @ join (y # ys)"

text \<open>\<^verbatim>\<open>String(val)\<close>, which \<^verbatim>\<open>replaceAll\<close> applies to its replacement.\<close>

fun toString :: "jsval \<Rightarrow> string" where
  "toString JUndefined = ''undefined''"
| "toString JNull = ''null''"
| "toString (JBool b) = (if b then ''true'' else ''false'')"
| "toString (JNum n) = num_str n"
| "toString (JStr s) = s"
| "toString (JArr xs) =
     join (map (\<lambda>x. if x = JUndefined \<or> x = JNull then [] else toString x) xs)"
| "toString (JObj kvs) = ''[object Object]''"

fun truthy :: "jsval \<Rightarrow> bool" where
  "truthy JUndefined = False"
| "truthy JNull = False"
| "truthy (JBool b) = b"
| "truthy (JNum n) = (n \<noteq> 0)"
| "truthy (JStr s) = (s \<noteq> [])"
| "truthy (JArr xs) = True"
| "truthy (JObj kvs) = True"

text \<open>An array index as a property key is its decimal numeral.\<close>

definition arrayIndex :: "string \<Rightarrow> nat \<Rightarrow> nat option" where
  "arrayIndex key n = find (\<lambda>i. digits i = key) [0..<n]"

text \<open>
  The own property \<open>key\<close> of a value: \<open>None\<close> when \<^verbatim>\<open>hasOwnProperty(key)\<close> is
  false, else \<open>Some\<close> of \<^verbatim>\<open>val[key]\<close>.
\<close>

fun ownProperty :: "jsval \<Rightarrow> string \<Rightarrow> jsval option" where
  "ownProperty (JObj kvs) key = map_of kvs key"
| "ownProperty (JArr xs) key =
     (if key = ''length'' then Some (JNum (int (length xs)))
      else map_option (\<lambda>i. xs ! i) (arrayIndex key (length xs)))"
| "ownProperty (JStr s) key =
     (if key = ''length'' then Some (JNum (int (length s)))
      else map_option (\<lambda>i. JStr [s ! i]) (arrayIndex key (length s)))"
| "ownProperty v key = None"

text \<open>
  \<^verbatim>\<open>params[key]\<close> reads inherited members too. A key that is no own property but a
  member of \<^verbatim>\<open>Object.prototype\<close> is outside this model: \<open>None\<close>.
\<close>

definition prototypeNames :: "string list" where
  "prototypeNames =
     [''constructor'', ''hasOwnProperty'', ''isPrototypeOf'', ''propertyIsEnumerable'',
      ''toLocaleString'', ''toString'', ''valueOf'', ''__proto__'', ''__defineGetter__'',
      ''__defineSetter__'', ''__lookupGetter__'', ''__lookupSetter__'']"

definition getParam :: "(string \<times> jsval) list \<Rightarrow> string \<Rightarrow> jsval option" where
  "getParam params key =
     (case map_of params key of
        Some v \<Rightarrow> Some v
      | None \<Rightarrow> if key \<in> set prototypeNames then None else Some JUndefined)"

text \<open>\<^verbatim>\<open>parseInt(string)\<close>: \<open>None\<close> is \<^verbatim>\<open>NaN\<close>.\<close>

definition digitValue :: "char \<Rightarrow> nat option" where
  "digitValue c =
     (let n = (of_char c :: nat)
      in if 48 \<le> n \<and> n \<le> 57 then Some (n - 48)
         else if 97 \<le> n \<and> n \<le> 122 then Some (n - 87)
         else if 65 \<le> n \<and> n \<le> 90 then Some (n - 55)
         else None)"

definition parseInt :: "string \<Rightarrow> int option" where
  "parseInt s =
     (let s1 = dropWhile isWhiteSpace s;
          neg = (take 1 s1 = ''-'');
          s2 = (if take 1 s1 = ''-'' \<or> take 1 s1 = ''+'' then drop 1 s1 else s1);
          hex = (take 2 s2 = ''0x'' \<or> take 2 s2 = ''0X'');
          r = (if hex then 16 else 10);
          s3 = (if hex then drop 2 s2 else s2);
          z = takeWhile (\<lambda>c. case digitValue c of Some d \<Rightarrow> d < r | None \<Rightarrow> False) s3;
          v = foldl (\<lambda>a c. a * r + (case digitValue c of Some d \<Rightarrow> d | None \<Rightarrow> 0)) 0 z
      in if z = [] then None else Some (if neg then - int v else int v))"

text \<open>\<^verbatim>\<open>p.split('.')\<close>\<close>

fun splitDots :: "string \<Rightarrow> string list" where
  "splitDots [] = [[]]"
| "splitDots (c # cs) =
     (if c = CHR ''.'' then [] # splitDots cs
      else (case splitDots cs of [] \<Rightarrow> [[c]] | k # ks \<Rightarrow> (c # k) # ks))"

text \<open>One turn of the loop \<^verbatim>\<open>for (let key of keys)\<close>.\<close>

definition resolveKey :: "jsval \<Rightarrow> string \<Rightarrow> jsval" where
  "resolveKey val key =
     (case (if truthy val then ownProperty val key else None) of
        Some v \<Rightarrow> v
      | None \<Rightarrow>
          if endsWith key '']'' \<and> CHR ''['' \<in> set key then
            (let arrKey = takeWhile (\<lambda>x. x \<noteq> CHR ''['') key;
                 indexStr = take (length key - 1 - (length arrKey + 1)) (drop (length arrKey + 1) key);
                 index = parseInt indexStr
             in case (if truthy val then ownProperty val arrKey else None) of
                  Some (JArr xs) \<Rightarrow>
                    (case index of
                       None \<Rightarrow> val
                     | Some i \<Rightarrow>
                         if int (length xs) > i
                         then (if 0 \<le> i then xs ! nat i else JUndefined)
                         else val)
                | _ \<Rightarrow> val)
          else val)"

text \<open>The value of a parameter \<open>p\<close>, nested when \<open>p\<close> has a dot.\<close>

definition resolveValue :: "(string \<times> jsval) list \<Rightarrow> string \<Rightarrow> jsval option" where
  "resolveValue params p =
     (if CHR ''.'' \<in> set p
      then map_option (\<lambda>top. foldl resolveKey top (splitDots p))
             (getParam params (takeWhile (\<lambda>x. x \<noteq> CHR ''.'') p))
      else getParam params p)"

text \<open>
  The loop over \<^verbatim>\<open>paramRegex.exec(command)\<close> with \<^verbatim>\<open>/{([^}]+)}/gm\<close>: at an opening
  brace followed by one or more characters other than a closing brace and then a closing
  brace, the characters between are a parameter and the search goes on after the closing
  brace.
\<close>

function commandParams :: "string \<Rightarrow> string list" where
  "commandParams [] = []"
| "commandParams (c # cs) =
     (if c = CHR ''{'' \<and> takeWhile (\<lambda>x. x \<noteq> CHR ''}'') cs \<noteq> []
         \<and> dropWhile (\<lambda>x. x \<noteq> CHR ''}'') cs \<noteq> []
      then takeWhile (\<lambda>x. x \<noteq> CHR ''}'') cs
           # commandParams (drop 1 (dropWhile (\<lambda>x. x \<noteq> CHR ''}'') cs))
      else commandParams cs)"
  by pat_completeness auto
termination
  by (relation "measure length")
     (auto intro: le_imp_less_Suc order_trans [OF diff_le_self length_dropWhile_le])

text \<open>
  \<^verbatim>\<open>new RegExp(`{${p}}`, 'g')\<close>: the parameter is the source of a pattern. The part of
  the pattern language modelled: an ordinary character stands for itself, a dot for any
  character but a line terminator, and \<^verbatim>\<open>[...]\<close> of ordinary characters for one
  character of the class. Any other pattern is outside the model: \<open>None\<close>. Every atom
  takes exactly one character.
\<close>

datatype atom = Lit char | AnyChar | Class "char list"

fun matchAtom :: "atom \<Rightarrow> char \<Rightarrow> bool" where
  "matchAtom (Lit a) c = (c = a)"
| "matchAtom AnyChar c = (c \<noteq> CHR 0x0A \<and> c \<noteq> CHR 0x0D)"
| "matchAtom (Class cs) c = (c \<in> set cs)"

definition syntaxCharacter :: "char \<Rightarrow> bool" where
  "syntaxCharacter c = (c = CHR 0x5C \<or> c \<in> set ''^$.*+?()[]{}|-'')"

function parseAtoms :: "string \<Rightarrow> atom list option" where
  "parseAtoms [] = Some []"
| "parseAtoms (c # cs) =
     (if c = CHR ''.'' then map_option (\<lambda>as. AnyChar # as) (parseAtoms cs)
      else if c = CHR ''['' then
        (if dropWhile (\<lambda>x. x \<noteq> CHR '']'') cs = []
            \<or> list_ex syntaxCharacter (takeWhile (\<lambda>x. x \<noteq> CHR '']'') cs)
         then None
         else map_option (\<lambda>as. Class (takeWhile (\<lambda>x. x \<noteq> CHR '']'') cs) # as)
                (parseAtoms (drop 1 (dropWhile (\<lambda>x. x \<noteq> CHR '']'') cs))))
      else if syntaxCharacter c then None
      else map_option (\<lambda>as. Lit c # as) (parseAtoms cs))"
  by pat_completeness auto
termination
  by (relation "measure length")
     (auto intro: le_imp_less_Suc order_trans [OF diff_le_self length_dropWhile_le])

text \<open>
  The pattern of \<open>{p}\<close>. A \<open>p\<close> that starts with a digit may make the braces a
  quantifier, and is left outside the model.
\<close>

definition tokenRegExp :: "string \<Rightarrow> atom list option" where
  "tokenRegExp p =
     (if p = [] \<or> (case digitValue (hd p) of Some d \<Rightarrow> d < 10 | None \<Rightarrow> False) then None
      else map_option (\<lambda>as. Lit (CHR ''{'') # as @ [Lit (CHR ''}'')]) (parseAtoms p))"

fun matchesAt :: "atom list \<Rightarrow> string \<Rightarrow> bool" where
  "matchesAt [] s = True"
| "matchesAt (a # as) [] = False"
| "matchesAt (a # as) (c # cs) = (matchAtom a c \<and> matchesAt as cs)"

text \<open>
  \<^verbatim>\<open>command.replaceAll(re, replacement)\<close> for a pattern of one or more atoms: every
  match, from left to right and without overlap, is replaced.
\<close>

fun replaceAll :: "atom list \<Rightarrow> string \<Rightarrow> string \<Rightarrow> string" where
  "replaceAll re replacement [] = []"
| "replaceAll re replacement (c # cs) =
     (if matchesAt re (c # cs)
      then replacement @ replaceAll re replacement (drop (length re - 1) cs)
      else c # replaceAll re replacement cs)"

text \<open>
  One turn of \<^verbatim>\<open>commandParams.forEach\<close>. A replacement text with a dollar sign, which
  \<^verbatim>\<open>replaceAll\<close> may read as a replacement pattern, is outside the model.
\<close>

definition replaceParam :: "(string \<times> jsval) list \<Rightarrow> string \<Rightarrow> string \<Rightarrow> string option" where
  "replaceParam params cmd p =
     (case tokenRegExp p of
        None \<Rightarrow> None
      | Some re \<Rightarrow>
          (case resolveValue params p of
             None \<Rightarrow> None
           | Some val \<Rightarrow>
               if CHR ''$'' \<in> set (toString val) then None
               else Some (replaceAll re (toString val) cmd)))"

fun replaceEach :: "(string \<times> jsval) list \<Rightarrow> string list \<Rightarrow> string \<Rightarrow> string option" where
  "replaceEach params [] cmd = Some cmd"
| "replaceEach params (p # ps) cmd =
     (case replaceParam params cmd p of
        None \<Rightarrow> None
      | Some cmd' \<Rightarrow> replaceEach params ps cmd')"

text \<open>The function mapped over the macros when \<^verbatim>\<open>params\<close> is given.\<close>

definition replaceParameters :: "(string \<times> jsval) list \<Rightarrow> ComMacro \<Rightarrow> ComMacro option" where
  "replaceParameters params m =
     map_option (\<lambda>cmd. \<lparr>command = cmd, response = response m\<rparr>)
       (replaceEach params (commandParams (command m)) (command m))"

section \<open>ComPort: lockPort, send, setType\<close>

text \<open>
  What the surroundings do while one macro is executed: the response of \<^verbatim>\<open>open\<close> if
  \<^verbatim>\<open>lockPort\<close> has to connect, the events during each wait of \<^verbatim>\<open>lockPort\<close>, the
  response of \<^verbatim>\<open>write\<close>, and the events and timer lags of \<^verbatim>\<open>read\<close>.
\<close>

record macroRun =
  openResponse :: "string option"
  connectingEvents :: "nat \<Rightarrow> event list"
  busyEvents :: "nat \<Rightarrow> event list"
  writeResponse :: "string option"
  readEvents :: "nat \<Rightarrow> event list"
  readLag :: "nat \<Rightarrow> nat"

text \<open>The two waiting loops of \<^verbatim>\<open>lockPort\<close>, of at most 10 timers each.\<close>

function waitConnecting :: "(nat \<Rightarrow> event list) \<Rightarrow> nat \<Rightarrow> ComPort \<Rightarrow> ComPort" where
  "waitConnecting evs attempt c =
     (if state c = Connecting \<and> attempt < 10
      then waitConnecting evs (Suc attempt) (deliverAll (evs attempt) c)
      else c)"
  by pat_completeness auto
termination
  by (relation "measure (\<lambda>(evs, attempt, c). 10 - attempt)") auto

function waitBusy :: "(nat \<Rightarrow> event list) \<Rightarrow> nat \<Rightarrow> ComPort \<Rightarrow> ComPort" where
  "waitBusy evs attempt c =
     (if state c = Busy \<and> attempt < 10
      then waitBusy evs (Suc attempt) (deliverAll (evs attempt) c)
      else c)"
  by pat_completeness auto
termination
  by (relation "measure (\<lambda>(evs, attempt, c). 10 - attempt)") auto

declare waitConnecting.simps [simp del] waitBusy.simps [simp del]

definition lockPort :: "macroRun \<Rightarrow> ComPort \<Rightarrow> unit outcome \<times> ComPort" where
  "lockPort run c =
     (if state c = Background then (Resolved (), c\<lparr>state := Busy\<rparr>)
      else
        (case (if state c = Closed then connect None (openResponse run) c else (Resolved (), c)) of
           (Rejected e, c1) \<Rightarrow> (Rejected e, c1)
         | (NeverSettles, c1) \<Rightarrow> (NeverSettles, c1)
         | (Resolved u, c1) \<Rightarrow>
             (let c2 = waitConnecting (connectingEvents run) 0 c1
              in if state c2 = Connecting
                 then (Rejected (Error ''Timeout while waiting for connection to complete.''), c2)
                 else
                   (let c3 = waitBusy (busyEvents run) 0 c2
                    in if state c3 = Busy
                       then (Rejected (Error ''Timeout while waiting for port to become available.''), c3)
                       else (Resolved (), c3\<lparr>state := Busy\<rparr>)))))"

text \<open>
  The loop \<^verbatim>\<open>for (let macro of macros)\<close> of \<^verbatim>\<open>send\<close>; \<open>runs i\<close> is what
  surrounds macro number \<open>i\<close>. A rejected \<^verbatim>\<open>await\<close> ends the loop; nothing is caught.
\<close>

fun executeMacros ::
  "(nat \<Rightarrow> macroRun) \<Rightarrow> nat \<Rightarrow> ComMacro list \<Rightarrow> string list \<Rightarrow> ComPort
     \<Rightarrow> string list outcome \<times> ComPort" where
  "executeMacros runs i [] responses c = (Resolved responses, c)"
| "executeMacros runs i (macro # rest) responses c =
     (case lockPort (runs i) c of
        (Rejected e, c1) \<Rightarrow> (Rejected e, c1)
      | (NeverSettles, c1) \<Rightarrow> (NeverSettles, c1)
      | (Resolved u, c1) \<Rightarrow>
          (case write_command (command macro) (writeResponse (runs i)) c1 of
             (Rejected e, c2) \<Rightarrow> (Rejected e, c2)
           | (NeverSettles, c2) \<Rightarrow> (NeverSettles, c2)
           | (Resolved u, c2) \<Rightarrow>
               (case read (response macro) (readEvents (runs i)) (readLag (runs i)) c2 of
                  (Rejected e, c3) \<Rightarrow> (Rejected e, c3)
                | (NeverSettles, c3) \<Rightarrow> (NeverSettles, c3)
                | (Resolved r, c3) \<Rightarrow> executeMacros runs (Suc i) rest (responses @ [r]) c3)))"

text \<open>
  \<^verbatim>\<open>send(macros_operationId, params?)\<close>. An operation the profile does not have
  gives \<^verbatim>\<open>undefined\<close>, which \<^verbatim>\<open>send\<close> treats as it treats an empty list. The
  result is \<open>None\<close> when a parameter is outside the model of \<open>replaceParameters\<close>.
\<close>

datatype macros_operationId = Macros "ComMacro list" | OperationId string

fun those_macros :: "ComMacro option list \<Rightarrow> ComMacro list option" where
  "those_macros [] = Some []"
| "those_macros (None # ms) = None"
| "those_macros (Some m # ms) = map_option (\<lambda>rest. m # rest) (those_macros ms)"

definition send ::
  "macros_operationId \<Rightarrow> (string \<times> jsval) list option \<Rightarrow> (nat \<Rightarrow> macroRun) \<Rightarrow> ComPort
     \<Rightarrow> (string list outcome \<times> ComPort) option" where
  "send target params runs c =
     (case (case target of
              OperationId operationId \<Rightarrow>
                (case type c of
                   None \<Rightarrow> Inl (Error (''Cannot send to com port '' @ path c @ '' by operationId without a type.''))
                 | Some t \<Rightarrow> Inr (case macros t operationId of None \<Rightarrow> [] | Some ms \<Rightarrow> ms))
            | Macros ms \<Rightarrow> Inr ms) of
        Inl e \<Rightarrow> Some (Rejected e, c)
      | Inr ms \<Rightarrow>
          if length ms = 0
          then Some (Rejected (Error (''No macros provided to send to com port '' @ path c @ ''.'')), c)
          else
            (case (case params of
                     None \<Rightarrow> Some ms
                   | Some ps \<Rightarrow> those_macros (map (replaceParameters ps) ms)) of
               None \<Rightarrow> None
             | Some ms' \<Rightarrow> Some (executeMacros runs 0 ms' [] c)))"

text \<open>
  \<^verbatim>\<open>setType(type)\<close>: the \<^verbatim>\<open>try\<close> block, then the \<^verbatim>\<open>finally\<close> block. A
  \<^verbatim>\<open>finally\<close> block that throws replaces the outcome of the \<^verbatim>\<open>try\<close> block, and one
  whose \<^verbatim>\<open>await\<close> never settles keeps \<^verbatim>\<open>setType\<close> from settling. The
  \<^verbatim>\<open>send\<close> of the init macros has no params and is always inside the model, so its
  case \<open>None\<close> is never taken.
\<close>

record typeRun =
  typeOpenResponse :: "string option"
  sleepEvents :: "event list"
  initRuns :: "nat \<Rightarrow> macroRun"
  closeResponse :: "string option"

text \<open>\<^verbatim>\<open>type.macros.init\<close>; a profile without it passes \<^verbatim>\<open>undefined\<close>.\<close>

definition initMacros :: "ComType \<Rightarrow> ComMacro list" where
  "initMacros t = (case macros t ''init'' of None \<Rightarrow> [] | Some ms \<Rightarrow> ms)"

definition setType_try :: "ComType \<Rightarrow> typeRun \<Rightarrow> ComPort \<Rightarrow> bool outcome \<times> ComPort" where
  "setType_try t run c =
     (case connect (Some (baud t)) (typeOpenResponse run) c of
        (Rejected e, c1) \<Rightarrow> (Rejected e, c1)
      | (NeverSettles, c1) \<Rightarrow> (NeverSettles, c1)
      | (Resolved u, c1) \<Rightarrow>
          (case send (Macros (initMacros t)) None (initRuns run)
                  (deliverAll (sleepEvents run) c1) of
             None \<Rightarrow> (NeverSettles, c1)
           | Some (Rejected e, c2) \<Rightarrow> (Rejected e, c2)
           | Some (NeverSettles, c2) \<Rightarrow> (NeverSettles, c2)
           | Some (Resolved responses, c2) \<Rightarrow>
               if readComplete c2 then (Resolved True, c2\<lparr>type := Some t\<rparr>)
               else (Resolved False, c2)))"

definition setType :: "ComType \<Rightarrow> typeRun \<Rightarrow> ComPort \<Rightarrow> bool outcome \<times> ComPort" where
  "setType t run c =
     (case setType_try t run c of
        (NeverSettles, c1) \<Rightarrow> (NeverSettles, c1)
      | (result, c1) \<Rightarrow>
          (case close (closeResponse run) c1 of
             (Resolved u, c2) \<Rightarrow> (result, c2)
           | (Rejected e, c2) \<Rightarrow> (Rejected e, c2)
           | (NeverSettles, c2) \<Rightarrow> (NeverSettles, c2)))"

section \<open>Examples\<close>

text \<open>
  Patterns of ordinary characters. \<open>findIn eol pat s\<close> is the offset of the leftmost
  place in \<open>s\<close> where \<open>pat\<close> stands, with \<open>eol\<close> only where a line of \<open>s\<close>
  ends after it (a final \<^verbatim>\<open>$\<close> under the flag \<^verbatim>\<open>m\<close>).
\<close>

definition lineEnds :: "string \<Rightarrow> bool" where
  "lineEnds rest = (case rest of [] \<Rightarrow> True | c # cs \<Rightarrow> c = CHR 0x0A \<or> c = CHR 0x0D)"

fun findIn :: "bool \<Rightarrow> string \<Rightarrow> string \<Rightarrow> nat option" where
  "findIn eol pat [] = (if pat = [] then Some 0 else None)"
| "findIn eol pat (c # cs) =
     (if prefix pat (c # cs) \<and> (if eol then lineEnds (drop (length pat) (c # cs)) else True)
      then Some 0
      else map_option Suc (findIn eol pat cs))"

definition literalFrom :: "bool \<Rightarrow> string \<Rightarrow> string \<Rightarrow> nat \<Rightarrow> nat option" where
  "literalFrom eol pat s i =
     (if i \<le> length s then map_option (\<lambda>k. i + k + length pat) (findIn eol pat (drop i s))
      else None)"

text \<open>
  A pattern without flags, such as \<^verbatim>\<open>/INITTED/\<close> in the tests: its test holds of the
  strings that contain it. Such objects never use their \<^verbatim>\<open>lastIndex\<close> and may share
  the \<open>ref\<close> 0.
\<close>

definition literal :: "string \<Rightarrow> RegExp" where
  "literal pat = \<lparr>ref = 0, matchFrom = literalFrom False pat, usesLastIndex = False\<rparr>"

text \<open>
  \<^verbatim>\<open>/CMD DONE$/gm\<close>, the response pattern of the macros of the README, and its
  macro \<^verbatim>\<open>getData\<close>.
\<close>

definition cmdDone :: RegExp where
  "cmdDone = \<lparr>ref = 1, matchFrom = literalFrom True ''CMD DONE'', usesLastIndex = True\<rparr>"

definition getData :: ComMacro where
  "getData = \<lparr>command = ''GET DATA'', response = cmdDone\<rparr>"

text \<open>
  A string matches a pattern when the matching succeeds from some index of the string.
\<close>

definition matches :: "RegExp \<Rightarrow> string \<Rightarrow> bool" where
  "matches re s = list_ex (\<lambda>i. matchFrom re s i \<noteq> None) [0..<Suc (length s)]"

text \<open>Surroundings in which nothing arrives, nothing fails and no timer is late.\<close>

definition quiet :: macroRun where
  "quiet = \<lparr>openResponse = None, connectingEvents = (\<lambda>k. []), busyEvents = (\<lambda>k. []),
            writeResponse = None, readEvents = (\<lambda>k. []), readLag = (\<lambda>k. 0)\<rparr>"

text \<open>
  Surroundings in which the device answers with the chunks \<open>chunks\<close>, one during each of
  the first waits of \<^verbatim>\<open>read\<close>.
\<close>

definition answering :: "string list \<Rightarrow> macroRun" where
  "answering chunks =
     quiet\<lparr>readEvents := (\<lambda>k. if k < length chunks then [Data (chunks ! k)] else [])\<rparr>"

definition quietType :: typeRun where
  "quietType = \<lparr>typeOpenResponse = None, sleepEvents = [], initRuns = (\<lambda>i. quiet),
                closeResponse = None\<rparr>"

text \<open>
  The connection of \<^verbatim>\<open>test/ComPort.test.ts\<close>, with its timeout of 500 ms, new and
  after \<^verbatim>\<open>connect(9600)\<close>; the macro and the profile of the tests.
\<close>

definition testPort :: ComPort where
  "testPort = (new_ComPort ''/dev/serialportMock'')\<lparr>timeout := 500\<rparr>"

definition connectedPort :: ComPort where
  "connectedPort = snd (connect (Some 9600) None testPort)"

definition helpMacro :: ComMacro where
  "helpMacro = \<lparr>command = ''HELP'', response = literal ''SOME INSTRUCTIONS''\<rparr>"

definition mockType :: ComType where
  "mockType =
     \<lparr>name = ''serialportMock'', baud = 9600,
      macros = [''init'' \<mapsto> [\<lparr>command = ''INIT'', response = literal ''INITTED''\<rparr>],
                ''help'' \<mapsto> [helpMacro]],
      startupDelay = 0\<rparr>"

text \<open>
  Four classifications of the test connection: the device answers the probe, it stays
  silent, the transport fails the write, the transport fails to open.
\<close>

definition matchedRun :: typeRun where
  "matchedRun = quietType\<lparr>initRuns := (\<lambda>i. answering [''INITTED''])\<rparr>"

definition silentRun :: typeRun where
  "silentRun = quietType"

definition writeFailedRun :: typeRun where
  "writeFailedRun = quietType\<lparr>initRuns := (\<lambda>i. quiet\<lparr>writeResponse := Some ''Write failed''\<rparr>)\<rparr>"

definition openFailedRun :: typeRun where
  "openFailedRun = quietType\<lparr>typeOpenResponse := Some ''Failed to open port''\<rparr>"

text \<open>
  Parameter names that are plain identifiers: letters, digits and underscores, not
  starting with a digit, and no member of \<^verbatim>\<open>Object.prototype\<close>.
\<close>

definition identifierPart :: "char \<Rightarrow> bool" where
  "identifierPart c = (c = CHR ''_'' \<or> digitValue c \<noteq> None)"

definition identifierName :: "string \<Rightarrow> bool" where
  "identifierName t =
     (t \<noteq> [] \<and> list_all identifierPart t
      \<and> (case digitValue (hd t) of Some d \<Rightarrow> 10 \<le> d | None \<Rightarrow> True)
      \<and> t \<notin> set prototypeNames)"

text \<open>The parameters \<^verbatim>\<open>{user: {addresses: [{city: "X"}]}}\<close>.\<close>

definition cityParams :: "(string \<times> jsval) list" where
  "cityParams = [(''user'', JObj [(''addresses'', JArr [JObj [(''city'', JStr ''X'')]])])]"

text \<open>The macro \<^verbatim>\<open>setData\<close> of the README.\<close>

definition setData :: ComMacro where
  "setData = \<lparr>command = ''SET DATA {val}'', response = cmdDone\<rparr>"

text \<open>
  The test connection with the port locked for a command, and with a log of 1000 entries.
\<close>

definition lockedPort :: ComPort where
  "lockedPort = snd (lockPort quiet connectedPort)"

definition fullPort :: ComPort where
  "fullPort = connectedPort\<lparr>backgroundBuffer := ''oldest'' # replicate 999 ''x''\<rparr>"


text \<open>
  Two calls of \<^verbatim>\<open>getData\<close> on the connected test connection, the device answering
  each with \<open>CMD DONE\<close> and a line ending in one chunk: the connection after the first
  \<^verbatim>\<open>read\<close>, and locked again for the second.
\<close>

definition answered :: macroRun where
  "answered = answering [''CMD DONE\<newline>'']"

definition afterFirstRead :: ComPort where
  "afterFirstRead = snd (read cmdDone (readEvents answered) (readLag answered) lockedPort)"

definition lockedAgain :: ComPort where
  "lockedAgain = snd (lockPort quiet afterFirstRead)"

text \<open>The connection after one \<^verbatim>\<open>send\<close> of \<^verbatim>\<open>getData\<close> that the device answered.\<close>

definition sentOnce :: ComPort where
  "sentOnce =
     (case send (Macros [getData]) None (\<lambda>i. answered) connectedPort of
        Some (r, c) \<Rightarrow> c
      | None \<Rightarrow> connectedPort)"



section \<open>Properties of getComPort\<close>

lemma typePorts_subseq: "subseq (typePorts m typeName) (ports m)"
  by (simp add: typePorts_def)

text \<open>
  C8. For an integer index at or beyond the number of connections of the profile,
  \<^verbatim>\<open>getComPort\<close> throws the not-found error whose message holds the requested index
  and the count of matching connections; for an index in range it returns the element at
  that position of the filtered list, which keeps the discovery order of \<open>ports\<close>.
\<close>

theorem getComPort_index:
  "(int (length (typePorts m typeName)) \<le> i \<longrightarrow>
      getComPort m typeName (Index i) =
        Inl (Error (''Port with index '' @ num_str i @ '' not found. ''
                    @ num_str (int (length (typePorts m typeName)))
                    @ '' ports found of type '' @ typeName @ ''.'')))
   \<and> (0 \<le> i \<and> i < int (length (typePorts m typeName)) \<longrightarrow>
      getComPort m typeName (Index i) = Inr (Some (typePorts m typeName ! nat i)))
   \<and> subseq (typePorts m typeName) (ports m)
   \<and> set (typePorts m typeName) =
       {p \<in> set (ports m). \<exists>t. type p = Some t \<and> name t = typeName}"
  by (auto simp: getComPort_def Let_def typePorts_def split: option.splits)

lemma typePorts_fleet:
  "typePorts fleet ''mock'' =
     [(new_ComPort ''/dev/mock1'')\<lparr>type := Some mockName\<rparr>,
      (new_ComPort ''/dev/mock2'')\<lparr>type := Some mockName\<rparr>]"
  by (simp add: typePorts_def fleet_def mockName_def new_ComPort_def)

theorem getComPort_index_witness:
  "getComPort fleet ''mock'' (Index 99) =
     Inl (Error ''Port with index 99 not found. 2 ports found of type mock.'')
   \<and> getComPort fleet ''mock'' (Index 1) =
     Inr (Some ((new_ComPort ''/dev/mock2'')\<lparr>type := Some mockName\<rparr>))"
  using getComPort_index [of fleet "''mock''" 99] getComPort_index [of fleet "''mock''" 1]
  by (simp add: typePorts_fleet num_str_def digits.simps)

text \<open>
  C10. For a negative integer index \<^verbatim>\<open>getComPort\<close> throws nothing: the range check
  is \<^verbatim>\<open>index >= typePorts.length\<close> only, so the array is read at the negative
  index and \<^verbatim>\<open>undefined\<close> is returned in place of a port.
\<close>

theorem getComPort_negative_index:
  "i < 0 \<Longrightarrow> getComPort m typeName (Index i) = Inr None"
  by (simp add: getComPort_def Let_def)

theorem getComPort_negative_index_witness:
  "(-1::int) < 0 \<and> getComPort fleet ''mock'' (Index (-1)) = Inr None"
  using getComPort_negative_index [of "-1" fleet "''mock''"] by simp

section \<open>Properties of close and setType\<close>

text \<open>
  C9. On a connection without a transport handle (\<open>port\<close> is null, as in a new
  connection) the promise of \<^verbatim>\<open>close()\<close> never resolves and never rejects, and the
  connection is unchanged; with a handle the promise settles.
\<close>

theorem close_without_handle:
  "(port c = None \<longrightarrow> close r c = (NeverSettles, c))
   \<and> (port c \<noteq> None \<longrightarrow> fst (close r c) \<noteq> NeverSettles)"
  by (auto simp: close_def Let_def split: option.splits)

theorem close_without_handle_witness:
  "close None testPort = (NeverSettles, testPort)
   \<and> fst (close None connectedPort) = Resolved ()"
proof -
  have "port testPort = None" by (simp add: testPort_def new_ComPort_def)
  moreover have "port connectedPort \<noteq> None" by code_simp
  moreover have "fst (close None connectedPort) = Resolved ()" by code_simp
  ultimately show ?thesis
    using close_without_handle [of testPort None] by simp
qed

lemma close_settled:
  "fst (close r c) \<noteq> NeverSettles \<Longrightarrow>
     state (snd (close r c)) = Closed \<and> port (snd (close r c)) = None"
  by (auto simp: close_def Let_def split: option.splits)

text \<open>
  C4. Whenever \<^verbatim>\<open>setType\<close> completes, by returning or by throwing, the connection is
  in state \<open>closed\<close> and holds no transport handle.
\<close>

theorem setType_leaves_closed:
  "fst (setType t run c) \<noteq> NeverSettles \<Longrightarrow>
     state (snd (setType t run c)) = Closed \<and> port (snd (setType t run c)) = None"
proof -
  assume settled: "fst (setType t run c) \<noteq> NeverSettles"
  obtain r1 c1 where body: "setType_try t run c = (r1, c1)"
    by (cases "setType_try t run c")
  obtain r2 c2 where fin: "close (closeResponse run) c1 = (r2, c2)"
    by (cases "close (closeResponse run) c1")
  from settled body fin
  have "r1 \<noteq> NeverSettles \<and> r2 \<noteq> NeverSettles \<and> snd (setType t run c) = c2"
    by (cases r1; cases r2) (simp_all add: setType_def)
  with close_settled [of "closeResponse run" c1] fin show ?thesis by simp
qed

lemma setType_matched: "fst (setType mockType matchedRun testPort) = Resolved True"
  by code_simp

lemma setType_silent:
  "fst (setType mockType silentRun testPort) =
     Rejected (Error ''Timeout after 500ms while reading from port /dev/serialportMock.'')"
  by code_simp

lemma setType_writeFailed:
  "fst (setType mockType writeFailedRun testPort) = Rejected (Error ''Write failed'')"
  by code_simp

lemma setType_openFailed:
  "fst (setType mockType openFailedRun testPort) = Rejected (Error ''Failed to open port'')"
  by code_simp

theorem setType_leaves_closed_witness:
  "(fst (setType mockType matchedRun testPort) = Resolved True
      \<and> state (snd (setType mockType matchedRun testPort)) = Closed
      \<and> port (snd (setType mockType matchedRun testPort)) = None)
   \<and> (fst (setType mockType silentRun testPort) =
         Rejected (Error ''Timeout after 500ms while reading from port /dev/serialportMock.'')
      \<and> state (snd (setType mockType silentRun testPort)) = Closed
      \<and> port (snd (setType mockType silentRun testPort)) = None)
   \<and> (fst (setType mockType writeFailedRun testPort) = Rejected (Error ''Write failed'')
      \<and> state (snd (setType mockType writeFailedRun testPort)) = Closed
      \<and> port (snd (setType mockType writeFailedRun testPort)) = None)
   \<and> (fst (setType mockType openFailedRun testPort) = Rejected (Error ''Failed to open port'')
      \<and> state (snd (setType mockType openFailedRun testPort)) = Closed
      \<and> port (snd (setType mockType openFailedRun testPort)) = None)"
  using setType_leaves_closed [of mockType matchedRun testPort]
    setType_leaves_closed [of mockType silentRun testPort]
    setType_leaves_closed [of mockType writeFailedRun testPort]
    setType_leaves_closed [of mockType openFailedRun testPort]
  by (simp add: setType_matched setType_silent setType_writeFailed setType_openFailed)

section \<open>Properties of send\<close>

text \<open>
  C1. A \<^verbatim>\<open>send\<close> that fails inside the loop over the macros should leave the
  connection in state \<open>background\<close>. The code leaves it in state \<open>busy\<close>: on the
  connected test connection, a probe that gets no answer is rejected with the timeout
  error and the state is \<open>busy\<close>; so it is after a failed write; and the next
  \<^verbatim>\<open>send\<close> on that connection is rejected by the lock, the state still \<open>busy\<close>.
\<close>

theorem send_failure_leaves_busy:
  "map_option (\<lambda>(r, c). (r, state c)) (send (Macros [helpMacro]) None (\<lambda>i. quiet) connectedPort) =
     Some (Rejected (Error ''Timeout after 500ms while reading from port /dev/serialportMock.''), Busy)
   \<and> map_option (\<lambda>(r, c). (r, state c))
       (send (Macros [helpMacro]) None (\<lambda>i. quiet\<lparr>writeResponse := Some ''Write failed''\<rparr>) connectedPort) =
     Some (Rejected (Error ''Write failed''), Busy)
   \<and> map_option (\<lambda>(r, c). (r, state c))
       (send (Macros [helpMacro]) None (\<lambda>i. quiet) (connectedPort\<lparr>state := Busy\<rparr>)) =
     Some (Rejected (Error ''Timeout while waiting for port to become available.''), Busy)"
  by code_simp

section \<open>Properties of the parameter substitution\<close>

lemma identifierPart_plain:
  "identifierPart c \<Longrightarrow>
     \<not> syntaxCharacter c \<and> c \<noteq> CHR ''.'' \<and> c \<noteq> CHR ''['' \<and> c \<noteq> CHR ''}'' \<and> c \<noteq> CHR ''{''"
  by (auto simp: identifierPart_def digitValue_def syntaxCharacter_def Let_def split: if_splits)

lemma parseAtoms_identifier:
  "list_all identifierPart t \<Longrightarrow> parseAtoms t = Some (map Lit t)"
  by (induction t) (auto dest: identifierPart_plain)

lemma tokenRegExp_identifier:
  "identifierName t \<Longrightarrow>
     tokenRegExp t = Some (Lit (CHR ''{'') # map Lit t @ [Lit (CHR ''}'')])"
  by (auto simp: identifierName_def tokenRegExp_def parseAtoms_identifier split: option.splits)

lemma commandParams_no_brace: "CHR ''{'' \<notin> set s \<Longrightarrow> commandParams s = []"
  by (induction s) auto

lemma takeWhile_until: "c \<notin> set t \<Longrightarrow> takeWhile (\<lambda>x. x \<noteq> c) (t @ c # s) = t"
  by (induction t) auto

lemma dropWhile_until: "c \<notin> set t \<Longrightarrow> dropWhile (\<lambda>x. x \<noteq> c) (t @ c # s) = c # s"
  by (induction t) auto

lemma commandParams_single:
  assumes "CHR ''{'' \<notin> set pre" "CHR ''{'' \<notin> set post" "t \<noteq> []" "CHR ''}'' \<notin> set t"
  shows "commandParams (pre @ CHR ''{'' # t @ CHR ''}'' # post) = [t]"
  using assms
proof (induction pre)
  case Nil
  have tw: "takeWhile (\<lambda>x. x \<noteq> CHR ''}'') (t @ CHR ''}'' # post) = t"
    using Nil.prems(4) by (rule takeWhile_until)
  have dw: "dropWhile (\<lambda>x. x \<noteq> CHR ''}'') (t @ CHR ''}'' # post) = CHR ''}'' # post"
    using Nil.prems(4) by (rule dropWhile_until)
  show ?case using Nil.prems(2,3) by (simp add: tw dw commandParams_no_brace)
next
  case (Cons c cs)
  then show ?case by auto
qed

lemma matchesAt_Lit_prefix: "matchesAt (map Lit xs @ as) (xs @ s) = matchesAt as s"
  by (induction xs) auto

lemma replaceAll_no_brace:
  "CHR ''{'' \<notin> set s \<Longrightarrow> replaceAll (Lit (CHR ''{'') # as) rep s = s"
  by (induction s) auto

lemma replaceAll_single:
  assumes "CHR ''{'' \<notin> set pre" "CHR ''{'' \<notin> set post"
  shows "replaceAll (Lit (CHR ''{'') # map Lit t @ [Lit (CHR ''}'')]) rep
           (pre @ CHR ''{'' # t @ CHR ''}'' # post) = pre @ rep @ post"
  using assms
proof (induction pre)
  case Nil
  have m: "matchesAt (map Lit t @ [Lit (CHR ''}'')]) (t @ CHR ''}'' # post)"
    by (simp add: matchesAt_Lit_prefix)
  show ?case using Nil.prems(2) m by (simp add: replaceAll_no_brace)
next
  case (Cons c cs)
  then show ?case by auto
qed

lemma resolveValue_missing:
  "identifierName t \<Longrightarrow> map_of params t = None \<Longrightarrow> resolveValue params t = Some JUndefined"
proof -
  assume a: "identifierName t" "map_of params t = None"
  then have "CHR ''.'' \<notin> set t"
    by (auto simp: identifierName_def list_all_iff dest: identifierPart_plain)
  with a show ?thesis by (simp add: resolveValue_def getParam_def identifierName_def)
qed

text \<open>
  C5, as the code has it. In a command template \<open>pre{t}post\<close> with no other opening
  brace, where \<open>t\<close> is a plain identifier for which the params object holds no value,
  the substitution replaces the token by the text \<open>undefined\<close>: the literal token does
  not stay.
\<close>

theorem missing_parameter_undefined:
  assumes "identifierName t" and "map_of params t = None"
    and "CHR ''{'' \<notin> set pre" and "CHR ''{'' \<notin> set post"
  shows "replaceParameters params \<lparr>command = pre @ ''{'' @ t @ ''}'' @ post, response = r\<rparr>
           = Some \<lparr>command = pre @ ''undefined'' @ post, response = r\<rparr>"
proof -
  have t: "t \<noteq> []" "CHR ''}'' \<notin> set t"
    using assms(1) by (auto simp: identifierName_def list_all_iff dest: identifierPart_plain)
  have ps: "commandParams (pre @ CHR ''{'' # t @ CHR ''}'' # post) = [t]"
    using assms(3,4) t by (rule commandParams_single)
  have "replaceParam params (pre @ ''{'' @ t @ ''}'' @ post) t = Some (pre @ ''undefined'' @ post)"
    using replaceAll_single [OF assms(3,4), of t "''undefined''"]
    by (simp add: replaceParam_def tokenRegExp_identifier [OF assms(1)]
        resolveValue_missing [OF assms(1,2)])
  then show ?thesis by (simp add: replaceParameters_def ps)
qed

theorem missing_parameter_undefined_witness:
  "identifierName ''id'' \<and> map_of [(''val'', JNum 7)] ''id'' = None
   \<and> replaceParameters [(''val'', JNum 7)]
        \<lparr>command = ''GET {id} NOW'', response = literal ''CMD DONE''\<rparr>
      = Some \<lparr>command = ''GET undefined NOW'', response = literal ''CMD DONE''\<rparr>"
proof -
  have n: "identifierName ''id''" by code_simp
  have m: "map_of [(''val'', JNum 7)] ''id'' = None" by simp
  show ?thesis
    using n m missing_parameter_undefined [OF n m, of "''GET ''" "'' NOW''" "literal ''CMD DONE''"]
    by simp
qed

text \<open>
  The claim C5 as stated fails: with the params object \<^verbatim>\<open>{}\<close> the command of
  \<^verbatim>\<open>setData\<close> becomes \<open>SET DATA undefined\<close>; the token is not left in place.
\<close>

theorem missing_parameter_counterexample:
  "map_option command (replaceParameters [] setData) = Some ''SET DATA undefined''
   \<and> map_option command (replaceParameters [] setData) \<noteq> Some (command setData)"
  by code_simp

lemma dotted_parameter_replaced:
  "map_option command
     (replaceParameters [(''user'', JObj [(''city'', JStr ''X'')])]
        \<lparr>command = ''GOTO {user.city}'', response = literal ''OK''\<rparr>) = Some ''GOTO X''"
  by code_simp

text \<open>
  C6. With the params \<^verbatim>\<open>{user: {addresses: [{city: "X"}]}}\<close> and the template
  \<open>GOTO {user.addresses[0].city}\<close> the command should become \<open>GOTO X\<close>. The code
  resolves the value \<open>X\<close>, but the pattern it builds from the parameter reads \<open>[0]\<close>
  as a character class, matches nothing in the command, and the command stays as it was.
\<close>

theorem nested_parameter_not_replaced:
  "resolveValue cityParams ''user.addresses[0].city'' = Some (JStr ''X'')
   \<and> map_option (\<lambda>re. matchesAt re ''{user.addresses[0].city}'')
        (tokenRegExp ''user.addresses[0].city'') = Some False
   \<and> map_option command
        (replaceParameters cityParams
           \<lparr>command = ''GOTO {user.addresses[0].city}'', response = literal ''OK''\<rparr>)
      = Some ''GOTO {user.addresses[0].city}''"
  by code_simp

section \<open>Properties of receiveData\<close>

lemma split_lines_ne [simp]: "split_lines d \<noteq> []"
  by (induction d rule: split_lines.induct) (auto split: list.splits)

lemma endsWith_single: "endsWith d [ch] = (d \<noteq> [] \<and> last d = ch)"
proof (cases d rule: rev_cases)
  case Nil then show ?thesis by (simp add: endsWith_def)
next
  case (snoc ys y) then show ?thesis by (simp add: endsWith_def)
qed

lemma update_last:
  "bb \<noteq> [] \<Longrightarrow> bb[length bb - Suc 0 := bb ! (length bb - Suc 0) @ x] = butlast bb @ [last bb @ x]"
  by (cases bb rule: rev_cases) (simp_all add: nth_append)

lemma appendLines_eq:
  "appendLines d bb =
     (if bb = [] then [hd (split_lines d)] else butlast bb @ [last bb @ hd (split_lines d)])
     @ filter (\<lambda>l. trim l \<noteq> []) (tl (split_lines d))
     @ (if d \<noteq> [] \<and> (last d = CHR 0x0A \<or> last d = CHR 0x0D) then [[]] else [])"
  by (auto simp: appendLines_def Let_def endsWith_single update_last hd_conv_nth drop_Suc)

lemma concat_appendLines:
  "concat (appendLines d bb) =
     concat bb @ hd (split_lines d) @ concat (filter (\<lambda>l. trim l \<noteq> []) (tl (split_lines d)))"
proof (cases bb rule: rev_cases)
  case Nil then show ?thesis by (simp add: appendLines_eq)
next
  case (snoc ys y) then show ?thesis by (simp add: appendLines_eq)
qed

text \<open>
  Below the capacity the log takes every chunk: the first line is joined to the last
  entry, the later lines that are not blank are pushed, an empty entry follows a final
  line ending, and nothing is removed.
\<close>

lemma receiveData_below_capacity:
  assumes "state c = Background"
    and "length (appendLines d (backgroundBuffer c)) \<le> 1000"
  shows "backgroundBuffer (receiveData d c) =
           (if backgroundBuffer c = [] then [hd (split_lines d)]
            else butlast (backgroundBuffer c) @ [last (backgroundBuffer c) @ hd (split_lines d)])
           @ filter (\<lambda>l. trim l \<noteq> []) (tl (split_lines d))
           @ (if d \<noteq> [] \<and> (last d = CHR 0x0A \<or> last d = CHR 0x0D) then [[]] else [])
         \<and> concat (backgroundBuffer (receiveData d c)) =
             concat (backgroundBuffer c) @ hd (split_lines d)
             @ concat (filter (\<lambda>l. trim l \<noteq> []) (tl (split_lines d)))
         \<and> state (receiveData d c) = Background"
proof -
  have "backgroundBuffer (receiveData d c) = appendLines d (backgroundBuffer c)"
    using assms by (simp add: receiveData_def backgroundLog_def Let_def)
  then show ?thesis
    using assms(1) appendLines_eq [of d "backgroundBuffer c"] concat_appendLines [of d "backgroundBuffer c"]
    by (simp add: receiveData_def)
qed

lemma fullPort_state: "state fullPort = Background" by code_simp

lemma receiveData_in_background:
  "state c = Background \<Longrightarrow> backgroundBuffer (receiveData d c) = backgroundLog d (backgroundBuffer c)"
  by (simp add: receiveData_def)

lemma fullPort_log: "backgroundBuffer fullPort = ''oldest'' # replicate 999 ''x''"
  by (simp add: fullPort_def)

text \<open>
  C2. In state \<open>background\<close> a chunk should be added to the log and none of it
  dropped, the 10 oldest entries making room once the log is above 1000, so that it never
  holds more than 1000 entries. The code removes the 10 newest entries: on a log of 1000
  entries the chunk \<open>a\<close>, line ending, \<open>b\<close> leaves the first 991 entries, the
  oldest among them and nothing of the chunk; and a chunk of 12 lines leaves 1001 entries.
\<close>

theorem receiveData_evicts_newest:
  "state fullPort = Background
   \<and> length (backgroundBuffer fullPort) = 1000
   \<and> backgroundBuffer (receiveData ''a\<newline>b'' fullPort) = ''oldest'' # replicate 990 ''x''
   \<and> length (backgroundBuffer (receiveData ''1\<newline>2\<newline>3\<newline>4\<newline>5\<newline>6\<newline>7\<newline>8\<newline>9\<newline>10\<newline>11\<newline>12'' fullPort)) = 1001"
  by (simp add: fullPort_state receiveData_in_background [OF fullPort_state] fullPort_log
      backgroundLog_def appendLines_def Let_def splice_def endsWith_def trim_def isWhiteSpace_def)

section \<open>Properties of read\<close>


lemma close_fields [simp]:
  "readMatch (snd (close r c)) = readMatch c" "readComplete (snd (close r c)) = readComplete c"
  "buffer (snd (close r c)) = buffer c" "lastError (snd (close r c)) = lastError c"
  "path (snd (close r c)) = path c"
  by (simp_all add: close_def Let_def split: option.splits)









text \<open>
  C7. A \<^verbatim>\<open>read\<close> should resolve with the trimmed buffer when the pattern matches the
  trimmed buffer, the pattern being tested on the whole buffer. The code calls
  \<^verbatim>\<open>test\<close> without setting \<^verbatim>\<open>lastIndex\<close> back, so a pattern with the flag
  \<^verbatim>\<open>g\<close> is tested from where its last match ended. With the pattern of the README,
  the first \<^verbatim>\<open>read\<close> resolves with \<open>CMD DONE\<close>; the second, on the same answer,
  is rejected with the timeout error although the trimmed buffer is \<open>CMD DONE\<close> and
  matches the pattern; the same pattern without the flag resolves. So it is for two calls
  of \<^verbatim>\<open>send\<close>.
\<close>

theorem read_misses_reused_pattern:
  "fst (read cmdDone (readEvents answered) (readLag answered) lockedPort) = Resolved ''CMD DONE''
   \<and> state lockedAgain = Busy
   \<and> fst (read cmdDone (readEvents answered) (readLag answered) lockedAgain) =
       Rejected (Error ''Timeout after 500ms while reading from port /dev/serialportMock.'')
   \<and> trim (buffer (snd (read cmdDone (readEvents answered) (readLag answered) lockedAgain)))
       = ''CMD DONE''
   \<and> matches cmdDone ''CMD DONE''
   \<and> fst (read (literal ''CMD DONE'') (readEvents answered) (readLag answered) lockedAgain)
       = Resolved ''CMD DONE''
   \<and> map_option fst (send (Macros [getData]) None (\<lambda>i. answered) connectedPort)
       = Some (Resolved [''CMD DONE''])
   \<and> map_option fst (send (Macros [getData]) None (\<lambda>i. answered) sentOnce)
       = Some (Rejected (Error ''Timeout after 500ms while reading from port /dev/serialportMock.''))"
  by code_simp

section \<open>Properties of the classification\<close>

















end
